theory Spec2Isabelle
  imports Main "HOL-Library.Finite_Map" "HOL-Library.Char_ord" "HOL-Library.List_Lexorder"
begin

section \<open>Data model of \<^verbatim>\<open>erroneous.go\<close>\<close>

text \<open>
  A value of type \<^verbatim>\<open>*Erroneous\<close> is a pointer: \<open>None\<close> is the nil pointer,
  \<open>Some a\<close> the address of a record in the heap.  A non-nil value of Go's
  \<^verbatim>\<open>error\<close> interface is either of dynamic type \<^verbatim>\<open>*Erroneous\<close> (\<open>Own\<close>, the
  pointer may be nil) or of any other dynamic type (\<open>Foreign\<close>, represented by the
  text its \<^verbatim>\<open>Error()\<close> method returns).  The nil interface is \<open>None\<close> of
  \<open>error option\<close>.
\<close>

type_synonym addr = nat

datatype error = Own "addr option" | Foreign string

text \<open>
  The values of \<^verbatim>\<open>interface{}\<close> stored in a field map: a few kinds of Go values, and
  error values.  \<open>VFunc\<close> stands for a value that \<^verbatim>\<open>encoding/json\<close> cannot encode.
\<close>

datatype gvalue = VNil | VBool bool | VInt int | VString string | VFunc | VError error

text \<open>\<^verbatim>\<open>type ErrFields map[string]interface{}\<close>; \<open>None\<close> is the nil map.\<close>

type_synonym ErrFields = "(string, gvalue) fmap option"

text \<open>
  The struct \<^verbatim>\<open>Erroneous\<close>.  The fields \<^verbatim>\<open>file\<close> and \<^verbatim>\<open>fields\<close> carry a prime, their
  names being taken in Isabelle.  Go's \<^verbatim>\<open>int\<close> is modelled by \<open>int\<close>: the program stores
  and prints \<^verbatim>\<open>line\<close> and \<^verbatim>\<open>depth\<close> and does no arithmetic on them.
\<close>

record Erroneous =
  msg :: string
  err :: "error option"
  fields' :: ErrFields
  file' :: string
  line :: int
  depth :: int

type_synonym heap = "Erroneous list"

section \<open>Library functions the program calls\<close>

text \<open>Decimal rendering of an integer, the verb \<^verbatim>\<open>%d\<close> of \<^verbatim>\<open>fmt.Sprintf\<close>.\<close>

fun digits :: "nat \<Rightarrow> string" where
  "digits n = (if n < 10 then [''0123456789'' ! n]
               else digits (n div 10) @ [''0123456789'' ! (n mod 10)])"

declare digits.simps [simp del]

definition itoa :: "int \<Rightarrow> string" where
  "itoa i = (if i < 0 then ''-'' @ digits (nat (- i)) else digits (nat i))"

text \<open>
  \<^verbatim>\<open>json.Marshal\<close> on a non-nil \<^verbatim>\<open>map[string]interface{}\<close>: an object whose members are
  sorted by key, \<^verbatim>\<open>{k1:v1,k2:v2}\<close> without spaces, \<^verbatim>\<open>{}\<close> for the empty map.  How a
  single value is written (string escaping, structs, numbers) belongs to the library and is
  the parameter \<open>enc\<close>, which gives the text of a value or \<open>None\<close> when the library
  rejects it; a key is written as the string value it is.  The result is \<open>None\<close> when
  \<^verbatim>\<open>json.Marshal\<close> returns an error (and no data).
\<close>

type_synonym encoder = "gvalue \<Rightarrow> string option"

fun join :: "string \<Rightarrow> string list \<Rightarrow> string" where
  "join sep [] = []"
| "join sep [x] = x"
| "join sep (x # y # ys) = x @ sep @ join sep (y # ys)"

fun encode_entries :: "encoder \<Rightarrow> (string \<times> gvalue) list \<Rightarrow> string list option" where
  "encode_entries enc [] = Some []"
| "encode_entries enc ((k, v) # kvs) =
     (case enc (VString k) of
        None \<Rightarrow> None
      | Some ks \<Rightarrow>
          (case enc v of
             None \<Rightarrow> None
           | Some vs \<Rightarrow>
               (case encode_entries enc kvs of
                  None \<Rightarrow> None
                | Some rest \<Rightarrow> Some ((ks @ '':'' @ vs) # rest))))"

definition json_Marshal :: "encoder \<Rightarrow> (string, gvalue) fmap \<Rightarrow> string option" where
  "json_Marshal enc m =
     (case encode_entries enc (sorted_list_of_fmap m) of
        None \<Rightarrow> None
      | Some items \<Rightarrow> Some (''{'' @ join '','' items @ ''}''))"

text \<open>
  \<^verbatim>\<open>runtime.Caller(skip)\<close> is a parameter \<open>caller\<close> of the constructor: the file and
  line of the frame \<open>skip\<close> levels up, or \<open>None\<close> when \<^verbatim>\<open>ok\<close> is false.
\<close>

type_synonym caller = "int \<Rightarrow> (string \<times> int) option"

section \<open>Rendering: \<^verbatim>\<open>Error\<close>, \<^verbatim>\<open>Message\<close>, \<^verbatim>\<open>Source\<close>, \<^verbatim>\<open>Fields\<close>\<close>

text \<open>
  \<^verbatim>\<open>e.err.Error()\<close> is a call through the interface.  \<open>error_Error\<close> is that call:
  a foreign error gives its text, an own error runs \<^verbatim>\<open>(*Erroneous).Error\<close> on the record
  the pointer names, whose body (with the body of \<^verbatim>\<open>Message\<close> in it) is written out here
  because the recursion goes through the heap.  A heap may hold a cycle of causes, on which
  the Go code does not return; \<open>None\<close> is that outcome (and that of an address outside the
  heap, which Go cannot produce).
\<close>

partial_function (option) error_Error :: "encoder \<Rightarrow> heap \<Rightarrow> error \<Rightarrow> string option" where
  "error_Error enc h x =
     (case x of
        Foreign t \<Rightarrow> Some t
      | Own None \<Rightarrow> Some ''unknown error''
      | Own (Some a) \<Rightarrow>
          (if a < length h then
             (let e = h ! a in
              Option.bind
                (case err e of
                   None \<Rightarrow> Some (msg e)
                 | Some c \<Rightarrow>
                     Option.bind (error_Error enc h c)
                       (\<lambda>t. Some ((if msg e \<noteq> [] then msg e @ '': '' else msg e) @ t)))
                (\<lambda>m.
                   let m1 = (if file' e \<noteq> []
                             then m @ '' ['' @ file' e @ '':'' @ itoa (line e) @ '']''
                             else m)
                   in case fields' e of
                        None \<Rightarrow> Some m1
                      | Some f \<Rightarrow>
                          (let data = (case json_Marshal enc f of None \<Rightarrow> [] | Some d \<Rightarrow> d)
                           in if length data > 0 then Some (m1 @ ''  '' @ data) else Some m1)))
           else None))"

text \<open>
  \<^verbatim>\<open>func (e *Erroneous) Message() string\<close>, on the record behind a non-nil receiver
  (on a nil receiver the Go code faults at \<^verbatim>\<open>e.msg\<close>).
\<close>

definition Erroneous_Message :: "encoder \<Rightarrow> heap \<Rightarrow> Erroneous \<Rightarrow> string option" where
  "Erroneous_Message enc h e =
     (case err e of
        None \<Rightarrow> Some (msg e)
      | Some c \<Rightarrow>
          (case error_Error enc h c of
             None \<Rightarrow> None
           | Some t \<Rightarrow> Some ((if msg e \<noteq> [] then msg e @ '': '' else msg e) @ t)))"

text \<open>
  \<^verbatim>\<open>func (e *Erroneous) Error() string\<close>; the receiver is \<open>None\<close> for the nil pointer
  and \<open>Some e\<close> for a pointer to the record \<open>e\<close>.
\<close>

definition Erroneous_Error :: "encoder \<Rightarrow> heap \<Rightarrow> Erroneous option \<Rightarrow> string option" where
  "Erroneous_Error enc h p =
     (case p of
        None \<Rightarrow> Some ''unknown error''
      | Some e \<Rightarrow>
          (case Erroneous_Message enc h e of
             None \<Rightarrow> None
           | Some m \<Rightarrow>
               (let m1 = (if file' e \<noteq> []
                          then m @ '' ['' @ file' e @ '':'' @ itoa (line e) @ '']''
                          else m)
                in case fields' e of
                     None \<Rightarrow> Some m1
                   | Some f \<Rightarrow>
                       (let data = (case json_Marshal enc f of None \<Rightarrow> [] | Some d \<Rightarrow> d)
                        in if length data > 0 then Some (m1 @ ''  '' @ data) else Some m1))))"

definition Erroneous_Source :: "Erroneous \<Rightarrow> string \<times> int" where
  "Erroneous_Source e = (file' e, line e)"

definition Erroneous_Fields :: "Erroneous \<Rightarrow> ErrFields" where
  "Erroneous_Fields e = fields' e"

section \<open>The configuration units\<close>

text \<open>
  \<^verbatim>\<open>type ErrOpts func(e *Erroneous) error\<close>.  A unit receives the pointer to the builder
  that \<^verbatim>\<open>New\<close> has just allocated and reads and writes that record only, so it is a
  function from the builder to the returned error (\<open>None\<close> is nil) and the builder
  as the unit leaves it.
\<close>

type_synonym ErrOpts = "Erroneous \<Rightarrow> error option \<times> Erroneous"

text \<open>The type assertion \<^verbatim>\<open>v.(error)\<close>.\<close>

fun as_error :: "gvalue \<Rightarrow> error option" where
  "as_error (VError x) = Some x"
| "as_error _ = None"

text \<open>The type assertion \<^verbatim>\<open>err.(*Erroneous)\<close>; it succeeds on a nil pointer of that type.\<close>

fun is_Erroneous :: "error option \<Rightarrow> bool" where
  "is_Erroneous (Some (Own p)) = True"
| "is_Erroneous _ = False"

definition Err :: "error option \<Rightarrow> ErrOpts" where
  "Err x e = (if is_Erroneous x then (x, e) else (None, e\<lparr>err := x\<rparr>))"

definition Msg :: "string \<Rightarrow> ErrFields \<Rightarrow> ErrOpts" where
  "Msg m fs e =
     (let e1 = e\<lparr>msg := m\<rparr> in
      case fs of
        None \<Rightarrow> (None, e1)
      | Some f \<Rightarrow>
          (let e2 = e1\<lparr>fields' := fs\<rparr> in
           case fmlookup f ''error'' of
             None \<Rightarrow> (None, e2)
           | Some v \<Rightarrow>
               (case as_error v of
                  None \<Rightarrow> (None, e2)
                | Some x \<Rightarrow> Err (Some x) e2)))"

definition Fields :: "ErrFields \<Rightarrow> ErrOpts" where
  "Fields fs e = (None, e\<lparr>fields' := fs\<rparr>)"

definition Source :: "string \<Rightarrow> int \<Rightarrow> ErrOpts" where
  "Source f l e = (None, e\<lparr>file' := f, line := l\<rparr>)"

definition Depth :: "int \<Rightarrow> ErrOpts" where
  "Depth d e = (None, e\<lparr>depth := d\<rparr>)"

text \<open>The five standard units.\<close>

inductive standard_unit :: "ErrOpts \<Rightarrow> bool" where
  "standard_unit (Msg m fs)"
| "standard_unit (Fields fs)"
| "standard_unit (Err x)"
| "standard_unit (Source f l)"
| "standard_unit (Depth d)"

section \<open>The constructor \<^verbatim>\<open>New\<close>\<close>

text \<open>The builder \<^verbatim>\<open>&Erroneous{depth: 2}\<close>: every other field has its zero value.\<close>

definition builder :: Erroneous where
  "builder = \<lparr>msg = [], err = None, fields' = None, file' = [], line = 0, depth = 2\<rparr>"

text \<open>
  The loop \<^verbatim>\<open>for _, fn := range opts\<close>: the result is the first non-nil error a unit
  returns, or \<open>None\<close> after the last unit, together with the builder.
\<close>

fun apply_opts :: "ErrOpts list \<Rightarrow> Erroneous \<Rightarrow> error option \<times> Erroneous" where
  "apply_opts [] e = (None, e)"
| "apply_opts (fn # opts) e =
     (case fn e of
        (Some x, e') \<Rightarrow> (Some x, e')
      | (None, e') \<Rightarrow> apply_opts opts e')"

text \<open>The step after the loop: \<^verbatim>\<open>if e.file == "" { ... runtime.Caller(e.depth) ... }\<close>.\<close>

definition capture :: "caller \<Rightarrow> Erroneous \<Rightarrow> Erroneous" where
  "capture caller e =
     (if file' e = [] then
        (case caller (depth e) of
           Some (f, l) \<Rightarrow> e\<lparr>file' := f, line := l\<rparr>
         | None \<Rightarrow> e)
      else e)"

text \<open>
  \<^verbatim>\<open>func New(opts ...ErrOpts) error\<close>.  The builder is allocated at the first free
  address \<open>length h\<close>; the result is the returned error, never the nil interface, and
  the heap after the call.  When a unit stops the loop the builder stays behind in the heap
  as that unit left it, and nothing refers to it.
\<close>

definition New :: "caller \<Rightarrow> ErrOpts list \<Rightarrow> heap \<Rightarrow> error \<times> heap" where
  "New caller opts h =
     (case apply_opts opts builder of
        (Some x, e) \<Rightarrow> (x, h @ [e])
      | (None, e) \<Rightarrow> (Own (Some (length h)), h @ [capture caller e]))"

section \<open>Sample inputs\<close>

text \<open>
  Inputs on which the theorems below are evaluated.  \<open>sample_encoder\<close> writes a string
  between double quotes as it stands (what \<^verbatim>\<open>encoding/json\<close> does for a string with no
  character to escape) and rejects every other value; \<open>no_caller\<close> is a stack on which
  \<^verbatim>\<open>runtime.Caller\<close> fails at every depth, \<open>sample_caller\<close> one on which it succeeds at
  depth 2 only; \<open>sample_heap\<close> holds two records, at the addresses 0 and 1;
  \<open>sample_fields\<close> is \<^verbatim>\<open>ErrFields{"error": errors.New("eof")}\<close>.
\<close>

definition sample_encoder :: encoder where
  "sample_encoder v = (case v of VString s \<Rightarrow> Some (''\"'' @ s @ ''\"'') | _ \<Rightarrow> None)"

definition no_caller :: caller where
  "no_caller d = None"

definition sample_caller :: caller where
  "sample_caller d = (if d = 2 then Some (''main.go'', 42) else None)"

definition sample_heap :: heap where
  "sample_heap = [builder\<lparr>msg := ''first''\<rparr>, builder\<lparr>msg := ''second''\<rparr>]"

definition sample_fields :: "(string, gvalue) fmap" where
  "sample_fields = fmupd ''error'' (VError (Foreign ''eof'')) fmempty"

section \<open>Basic facts\<close>

text \<open>The call through the interface, case by case.\<close>

lemma error_Error_Foreign: "error_Error enc h (Foreign t) = Some t"
  by (simp add: error_Error.simps)

lemma error_Error_Own:
  "error_Error enc h (Own p) =
     (case p of
        None \<Rightarrow> Some ''unknown error''
      | Some a \<Rightarrow> (if a < length h then Erroneous_Error enc h (Some (h ! a)) else None))"
  by (subst error_Error.simps)
     (simp add: Erroneous_Error_def Erroneous_Message_def Let_def
           split: option.splits)

text \<open>
  A call that returns on a heap returns the same text on a heap with more records behind:
  it has only read addresses of the smaller heap.
\<close>

lemma error_Error_heap_grows:
  assumes "error_Error enc h x = Some y"
  shows "error_Error enc (h @ hs) x = Some y"
proof (rule error_Error.raw_induct
    [where P = "\<lambda>enc h x y. error_Error enc (h @ hs) x = Some y"
       and xa = "((enc, h), x)" and y = y, unfolded case_prod_conv])
  show "error_Error enc h x = Some y"
    by (rule assms)
next
  fix f :: "encoder \<Rightarrow> heap \<Rightarrow> error \<Rightarrow> string option" and enc h x y
  assume IH: "\<And>enc h x y. f enc h x = Some y \<Longrightarrow> error_Error enc (h @ hs) x = Some y"
  assume body: "(case x of
        Own None \<Rightarrow> Some ''unknown error''
      | Own (Some a) \<Rightarrow>
          (if a < length h then
             (let e = h ! a in
              Option.bind
                (case err e of
                   None \<Rightarrow> Some (msg e)
                 | Some c \<Rightarrow>
                     Option.bind (f enc h c)
                       (\<lambda>t. Some ((if msg e \<noteq> [] then msg e @ '': '' else msg e) @ t)))
                (\<lambda>m.
                   let m1 = (if file' e \<noteq> []
                             then m @ '' ['' @ file' e @ '':'' @ itoa (line e) @ '']''
                             else m)
                   in case fields' e of
                        None \<Rightarrow> Some m1
                      | Some f \<Rightarrow>
                          (let data = (case json_Marshal enc f of None \<Rightarrow> [] | Some d \<Rightarrow> d)
                           in if length data > 0 then Some (m1 @ ''  '' @ data) else Some m1)))
           else None)
      | Foreign t \<Rightarrow> Some t) = Some y"
  show "error_Error enc (h @ hs) x = Some y"
  proof (cases x)
    case (Foreign t)
    with body show ?thesis by (simp add: error_Error_Foreign)
  next
    case (Own p)
    show ?thesis
    proof (cases p)
      case None
      with Own body show ?thesis by (simp add: error_Error_Own)
    next
      case (Some a)
      with Own body have a: "a < length h"
        by (auto split: if_splits)
      show ?thesis
      proof (cases "err (h ! a)")
        case None
        with Own Some a body show ?thesis
          by (subst error_Error.simps) (simp add: nth_append)
      next
        case (Some c)
        with Own \<open>p = Some a\<close> a body obtain t where t: "f enc h c = Some t"
          by (auto simp: Let_def split: Option.bind_splits)
        then have "error_Error enc (h @ hs) c = Some t"
          by (rule IH)
        with t Own \<open>p = Some a\<close> Some a body show ?thesis
          by (subst error_Error.simps) (simp add: nth_append)
      qed
    qed
  qed
qed

lemma Erroneous_Message_heap_grows:
  "Erroneous_Message enc h e = Some m \<Longrightarrow> Erroneous_Message enc (h @ hs) e = Some m"
  by (auto simp: Erroneous_Message_def error_Error_heap_grows split: option.splits)

text \<open>The serialization of small maps.\<close>

lemma json_Marshal_empty: "json_Marshal enc fmempty = Some ''{}''"
  by (simp add: json_Marshal_def sorted_list_of_fmap_def sorted_list_of_fset.rep_eq)

lemma json_Marshal_nonempty: "json_Marshal enc f = Some d \<Longrightarrow> d \<noteq> []"
  by (auto simp: json_Marshal_def split: option.splits)

lemma sorted_list_of_fmap_single: "sorted_list_of_fmap (fmupd k v fmempty) = [(k, v)]"
  by (simp add: sorted_list_of_fmap_def sorted_list_of_fset.rep_eq)

lemma json_Marshal_single:
  "enc (VString k) = Some ks \<Longrightarrow> enc v = Some vs \<Longrightarrow>
   json_Marshal enc (fmupd k v fmempty) = Some (''{'' @ ks @ '':'' @ vs @ ''}'')"
  by (simp add: json_Marshal_def sorted_list_of_fmap_single)

lemma itoa_10: "itoa 10 = ''10''"
  by code_simp

lemma itoa_42: "itoa 42 = ''42''"
  by code_simp

text \<open>The units and the loop.\<close>

lemma Err_own: "Err (Some (Own p)) e = (Some (Own p), e)"
  by (simp add: Err_def)

lemma Err_foreign: "Err (Some (Foreign t)) e = (None, e\<lparr>err := Some (Foreign t)\<rparr>)"
  by (simp add: Err_def)

lemma Msg_no_stop:
  assumes "\<forall>p. fmlookup f ''error'' \<noteq> Some (VError (Own p))"
  shows "Msg m (Some f) e =
           (None, e\<lparr>msg := m, fields' := Some f,
                    err := (case Option.bind (fmlookup f ''error'') as_error of
                              None \<Rightarrow> err e | Some x \<Rightarrow> Some x)\<rparr>)"
proof (cases "fmlookup f ''error''")
  case None
  then show ?thesis by (simp add: Msg_def)
next
  case (Some v)
  show ?thesis
  proof (cases "as_error v")
    case None
    with Some show ?thesis by (simp add: Msg_def)
  next
    case (Some x)
    with \<open>fmlookup f ''error'' = Some v\<close> have v: "v = VError x"
      by (cases v) auto
    with assms \<open>fmlookup f ''error'' = Some v\<close> obtain t where "x = Foreign t"
      by (cases x) auto
    with v \<open>fmlookup f ''error'' = Some v\<close> show ?thesis
      by (simp add: Msg_def Err_def)
  qed
qed

lemma apply_opts_append:
  "apply_opts (pre @ post) e =
     (case apply_opts pre e of
        (Some x, e') \<Rightarrow> (Some x, e')
      | (None, e') \<Rightarrow> apply_opts post e')"
  by (induction pre arbitrary: e) (auto split: prod.splits option.splits)

lemma capture_keeps:
  "msg (capture caller e) = msg e" "err (capture caller e) = err e"
  "fields' (capture caller e) = fields' e" "depth (capture caller e) = depth e"
  by (simp_all add: capture_def split: option.splits)

lemma New_no_stop:
  "apply_opts opts builder = (None, e) \<Longrightarrow>
   New caller opts h = (Own (Some (length h)), h @ [capture caller e])"
  by (simp add: New_def)

lemma New_stop:
  "apply_opts opts builder = (Some x, e) \<Longrightarrow> New caller opts h = (x, h @ [e])"
  by (simp add: New_def)

lemma New_heap: "snd (New caller opts h) = h @ [last (snd (New caller opts h))]"
  by (simp add: New_def split: prod.splits option.splits)

lemma New_last_cause:
  "err (last (snd (New caller opts h))) = err (snd (apply_opts opts builder))"
  by (simp add: New_def capture_keeps split: prod.splits option.splits)

text \<open>A standard unit never stores an own error as the cause.\<close>

lemma standard_unit_keeps_cause:
  assumes "standard_unit fn" and "\<not> is_Erroneous (err e)"
  shows "\<not> is_Erroneous (err (snd (fn e)))"
  using assms(1)
proof cases
  case (1 m fs)
  show ?thesis
  proof (cases fs)
    case None
    with 1 assms(2) show ?thesis by (simp add: Msg_def)
  next
    case (Some f)
    show ?thesis
    proof (cases "Option.bind (fmlookup f ''error'') as_error")
      case None
      with 1 Some assms(2) show ?thesis
        by (auto simp: Msg_def Let_def split: option.splits)
    next
      case (Some x)
      with 1 \<open>fs = Some f\<close> assms(2) show ?thesis
        by (cases x) (auto simp: Msg_def Err_def Let_def split: option.splits)
    qed
  qed
next
  case (2 fs)
  with assms(2) show ?thesis by (simp add: Fields_def)
next
  case (3 x)
  with assms(2) show ?thesis by (simp add: Err_def)
next
  case (4 f l)
  with assms(2) show ?thesis by (simp add: Source_def)
next
  case (5 d)
  with assms(2) show ?thesis by (simp add: Depth_def)
qed

lemma apply_opts_keeps_cause:
  "list_all standard_unit opts \<Longrightarrow> \<not> is_Erroneous (err e) \<Longrightarrow>
   \<not> is_Erroneous (err (snd (apply_opts opts e)))"
proof (induction opts arbitrary: e)
  case Nil
  then show ?case by simp
next
  case (Cons fn opts)
  from Cons.prems have fn: "\<not> is_Erroneous (err (snd (fn e)))"
    by (simp add: standard_unit_keeps_cause)
  show ?case
  proof (cases "fn e")
    case (Pair r e')
    with fn Cons show ?thesis
      by (cases r) auto
  qed
qed

section \<open>The constructor stops at an own error\<close>

text \<open>
  C1.  When no unit before it stops the loop, \<^verbatim>\<open>Err(e1)\<close> with \<open>e1\<close> of dynamic type
  \<^verbatim>\<open>*Erroneous\<close> makes \<^verbatim>\<open>New\<close> return \<open>e1\<close> itself, the same pointer, and the heap
  that \<open>e1\<close> points into is as before, with the abandoned builder behind it.  The result
  does not mention the units after \<^verbatim>\<open>Err(e1)\<close> nor the call stack: no later unit is
  applied and the source is not captured.  The \<^verbatim>\<open>Message()\<close> that \<open>e1\<close> gave before the call
  it gives after it, whatever the later units are.
\<close>

theorem New_Err_own_returns_it:
  assumes "fst (apply_opts pre builder) = None"
  shows "New caller (pre @ Err (Some (Own p)) # post) h
           = (Own p, h @ [snd (apply_opts pre builder)]) \<and>
         (\<forall>a m. p = Some a \<and> a < length h \<and> Erroneous_Message enc h (h ! a) = Some m \<longrightarrow>
            Erroneous_Message enc (snd (New caller (pre @ Err (Some (Own p)) # post) h))
              (snd (New caller (pre @ Err (Some (Own p)) # post) h) ! a) = Some m)"
proof -
  from assms obtain e where pre: "apply_opts pre builder = (None, e)"
    by (cases "apply_opts pre builder") auto
  then have "apply_opts (pre @ Err (Some (Own p)) # post) builder = (Some (Own p), e)"
    by (simp add: apply_opts_append Err_own)
  then have new: "New caller (pre @ Err (Some (Own p)) # post) h = (Own p, h @ [e])"
    by (rule New_stop)
  have same: "Erroneous_Message enc (snd (New caller (pre @ Err (Some (Own p)) # post) h))
              (snd (New caller (pre @ Err (Some (Own p)) # post) h) ! a) = Some m"
    if "a < length h" "Erroneous_Message enc h (h ! a) = Some m" for a m
    using that by (simp add: new nth_append Erroneous_Message_heap_grows)
  from new pre have "New caller (pre @ Err (Some (Own p)) # post) h
                       = (Own p, h @ [snd (apply_opts pre builder)])"
    by simp
  with same show ?thesis
    by blast
qed

text \<open>
  An instance: two units that do not stop, then \<^verbatim>\<open>Err\<close> of the record at address 1,
  then a \<^verbatim>\<open>Msg\<close>; the message of that record is \<^verbatim>\<open>"second"\<close> before and after.
\<close>

theorem New_Err_own_returns_it_witness:
  "fst (apply_opts [Msg ''a'' None, Depth 7] builder) = None \<and>
   New sample_caller ([Msg ''a'' None, Depth 7] @ Err (Some (Own (Some 1))) # [Msg ''b'' None])
       sample_heap
     = (Own (Some 1), sample_heap @ [builder\<lparr>msg := ''a'', depth := 7\<rparr>]) \<and>
   Erroneous_Message sample_encoder sample_heap (sample_heap ! 1) = Some ''second'' \<and>
   Erroneous_Message sample_encoder (sample_heap @ [builder\<lparr>msg := ''a'', depth := 7\<rparr>])
     ((sample_heap @ [builder\<lparr>msg := ''a'', depth := 7\<rparr>]) ! 1) = Some ''second''"
proof -
  have pre: "apply_opts [Msg ''a'' None, Depth 7] builder
               = (None, builder\<lparr>msg := ''a'', depth := 7\<rparr>)"
    by (simp add: Msg_def Depth_def)
  then have h: "fst (apply_opts [Msg ''a'' None, Depth 7] builder) = None"
    by simp
  have len: "1 < length sample_heap"
    by (simp add: sample_heap_def)
  have before: "Erroneous_Message sample_encoder sample_heap (sample_heap ! 1) = Some ''second''"
    by (simp add: Erroneous_Message_def sample_heap_def builder_def)
  note inst = New_Err_own_returns_it [OF h, of sample_caller "Some 1" "[Msg ''b'' None]"
      sample_heap sample_encoder]
  from inst pre have new: "New sample_caller
        ([Msg ''a'' None, Depth 7] @ Err (Some (Own (Some 1))) # [Msg ''b'' None]) sample_heap
      = (Own (Some 1), sample_heap @ [builder\<lparr>msg := ''a'', depth := 7\<rparr>])"
    by simp
  from inst len before have "Erroneous_Message sample_encoder
      (snd (New sample_caller
        ([Msg ''a'' None, Depth 7] @ Err (Some (Own (Some 1))) # [Msg ''b'' None]) sample_heap))
      (snd (New sample_caller
        ([Msg ''a'' None, Depth 7] @ Err (Some (Own (Some 1))) # [Msg ''b'' None]) sample_heap) ! 1)
      = Some ''second''"
    by blast
  then have after: "Erroneous_Message sample_encoder
      (sample_heap @ [builder\<lparr>msg := ''a'', depth := 7\<rparr>])
      ((sample_heap @ [builder\<lparr>msg := ''a'', depth := 7\<rparr>]) ! 1) = Some ''second''"
    by (simp only: new snd_conv)
  from h new before after show ?thesis
    by blast
qed

text \<open>
  Without the condition on the units before, the statement fails: of two \<^verbatim>\<open>Err\<close> units
  with own errors the first one wins, so \<^verbatim>\<open>New(Err(e0), Err(e1))\<close> returns \<open>e0\<close>.
\<close>

theorem New_Err_own_counterexample:
  "fst (New sample_caller [Err (Some (Own (Some 0))), Err (Some (Own (Some 1)))] sample_heap)
     = Own (Some 0) \<and>
   fst (New sample_caller [Err (Some (Own (Some 0))), Err (Some (Own (Some 1)))] sample_heap)
     \<noteq> Own (Some 1)"
  by (simp add: New_def Err_def)

section \<open>Rendering\<close>

text \<open>
  C2.  A record whose field map is present and empty renders as the same record without
  a field map, followed by two spaces and \<^verbatim>\<open>{}\<close>, the serialization of the empty map
  (and like that record it renders nothing when the cause does not render).
\<close>

theorem Error_empty_fields:
  assumes "fields' e = Some fmempty"
  shows "Erroneous_Error enc h (Some e) =
         map_option (\<lambda>s. s @ ''  {}'') (Erroneous_Error enc h (Some (e\<lparr>fields' := None\<rparr>)))"
  using assms
  by (auto simp: Erroneous_Error_def Erroneous_Message_def json_Marshal_empty Let_def
        split: option.splits)

theorem Error_empty_fields_witness:
  "Erroneous_Error sample_encoder [] (Some (builder\<lparr>msg := ''boom'', fields' := Some fmempty\<rparr>))
     = Some ''boom  {}''"
  using Error_empty_fields
    [of "builder\<lparr>msg := ''boom'', fields' := Some fmempty\<rparr>" sample_encoder "[]"]
  by (simp add: Erroneous_Error_def Erroneous_Message_def builder_def)

text \<open>
  The two renderings differ.  Called from \<^verbatim>\<open>main.go:42\<close>, \<^verbatim>\<open>New(Fields(ErrFields{}))\<close>
  renders as \<^verbatim>\<open>" [main.go:42]  {}"\<close> and \<^verbatim>\<open>New(Fields(nil))\<close> as \<^verbatim>\<open>" [main.go:42]"\<close>.
\<close>

theorem Error_empty_fields_counterexample:
  "error_Error sample_encoder (snd (New sample_caller [Fields (Some fmempty)] []))
     (fst (New sample_caller [Fields (Some fmempty)] [])) = Some '' [main.go:42]  {}'' \<and>
   error_Error sample_encoder (snd (New sample_caller [Fields None] []))
     (fst (New sample_caller [Fields None] [])) = Some '' [main.go:42]''"
  by (simp add: New_def Fields_def capture_def builder_def sample_caller_def error_Error_Own
        Erroneous_Error_def Erroneous_Message_def json_Marshal_empty itoa_42)

text \<open>
  C3.  \<^verbatim>\<open>Message()\<close> is the stored message when the cause is nil; with a cause whose
  \<^verbatim>\<open>Error()\<close> returns \<open>t\<close> it is the message, \<^verbatim>\<open>": "\<close> and \<open>t\<close> when the message is
  not empty, and \<open>t\<close> alone when it is.
\<close>

theorem Message_cases:
  "(err e = None \<longrightarrow> Erroneous_Message enc h e = Some (msg e)) \<and>
   (\<forall>c t. err e = Some c \<and> error_Error enc h c = Some t \<and> msg e \<noteq> [] \<longrightarrow>
      Erroneous_Message enc h e = Some (msg e @ '': '' @ t)) \<and>
   (\<forall>c t. err e = Some c \<and> error_Error enc h c = Some t \<and> msg e = [] \<longrightarrow>
      Erroneous_Message enc h e = Some t)"
  by (simp add: Erroneous_Message_def)

theorem Message_cases_witness:
  "Erroneous_Message sample_encoder [] (builder\<lparr>msg := ''boom''\<rparr>) = Some ''boom'' \<and>
   Erroneous_Message sample_encoder [] (builder\<lparr>msg := ''read'', err := Some (Foreign ''eof'')\<rparr>)
     = Some ''read: eof'' \<and>
   Erroneous_Message sample_encoder [] (builder\<lparr>err := Some (Foreign ''eof'')\<rparr>) = Some ''eof''"
  using Message_cases [of "builder\<lparr>msg := ''boom''\<rparr>" sample_encoder "[]"]
    Message_cases [of "builder\<lparr>msg := ''read'', err := Some (Foreign ''eof'')\<rparr>" sample_encoder "[]"]
    Message_cases [of "builder\<lparr>err := Some (Foreign ''eof'')\<rparr>" sample_encoder "[]"]
  by (simp add: builder_def error_Error_Foreign)

text \<open>
  C4.  On a non-nil receiver \<^verbatim>\<open>Error()\<close> is \<^verbatim>\<open>Message()\<close>, then \<^verbatim>\<open>" [file:line]"\<close> exactly
  when the file is not empty, then two spaces and the serialized fields exactly when the
  fields are not nil and serialize to a text that is not empty, in that order; it returns
  when \<^verbatim>\<open>Message()\<close> does, which it does whenever the cause is not an own error.
  \<^verbatim>\<open>Message()\<close> does not depend on the source nor on the fields.  For a record with the
  source \<^verbatim>\<open>f.go\<close>, 10 and the fields \<^verbatim>\<open>{"k": "v"}\<close>, serialized as \<open>d\<close>, \<^verbatim>\<open>Error()\<close> is
  \<^verbatim>\<open>Message()\<close>, \<^verbatim>\<open>" [f.go:10]"\<close>, two spaces and \<open>d\<close>.
\<close>

theorem Error_format:
  "Erroneous_Error enc h (Some e) =
     map_option
       (\<lambda>m. m
          @ (if file' e \<noteq> [] then '' ['' @ file' e @ '':'' @ itoa (line e) @ '']'' else [])
          @ (case fields' e of
               None \<Rightarrow> []
             | Some f \<Rightarrow>
                 (case json_Marshal enc f of
                    None \<Rightarrow> []
                  | Some d \<Rightarrow> if d \<noteq> [] then ''  '' @ d else [])))
       (Erroneous_Message enc h e) \<and>
   Erroneous_Message enc h (e\<lparr>fields' := fs, file' := fl, line := ln\<rparr>) = Erroneous_Message enc h e \<and>
   (\<not> is_Erroneous (err e) \<longrightarrow> Erroneous_Error enc h (Some e) \<noteq> None) \<and>
   (file' e = ''f.go'' \<and> line e = 10 \<and> fields' e = Some (fmupd ''k'' (VString ''v'') fmempty) \<and>
    json_Marshal enc (fmupd ''k'' (VString ''v'') fmempty) = Some d \<and>
    Erroneous_Message enc h e = Some m \<longrightarrow>
      Erroneous_Error enc h (Some e) = Some (m @ '' [f.go:10]'' @ ''  '' @ d))"
proof -
  have fmt: "Erroneous_Error enc h (Some e) =
     map_option
       (\<lambda>m. m
          @ (if file' e \<noteq> [] then '' ['' @ file' e @ '':'' @ itoa (line e) @ '']'' else [])
          @ (case fields' e of
               None \<Rightarrow> []
             | Some f \<Rightarrow>
                 (case json_Marshal enc f of
                    None \<Rightarrow> []
                  | Some d \<Rightarrow> if d \<noteq> [] then ''  '' @ d else [])))
       (Erroneous_Message enc h e)"
    by (auto simp: Erroneous_Error_def Let_def split: option.splits)
  have indep: "Erroneous_Message enc h (e\<lparr>fields' := fs, file' := fl, line := ln\<rparr>)
                 = Erroneous_Message enc h e"
    by (simp add: Erroneous_Message_def split: option.splits)
  have returns: "Erroneous_Error enc h (Some e) \<noteq> None" if "\<not> is_Erroneous (err e)"
  proof -
    from that have "Erroneous_Message enc h e \<noteq> None"
      by (cases "err e" rule: is_Erroneous.cases)
         (auto simp: Erroneous_Message_def error_Error_Foreign)
    then show ?thesis by (simp add: fmt)
  qed
  have example: "Erroneous_Error enc h (Some e) = Some (m @ '' [f.go:10]'' @ ''  '' @ d)"
    if "file' e = ''f.go''" "line e = 10"
      "fields' e = Some (fmupd ''k'' (VString ''v'') fmempty)"
      "json_Marshal enc (fmupd ''k'' (VString ''v'') fmempty) = Some d"
      "Erroneous_Message enc h e = Some m"
    using that json_Marshal_nonempty [of enc "fmupd ''k'' (VString ''v'') fmempty" d]
    by (simp add: fmt itoa_10)
  from fmt indep returns example show ?thesis by blast
qed

text \<open>
  The record that \<^verbatim>\<open>New(Source("f.go", 10), Fields(ErrFields{"k": "v"}))\<close> builds: its
  message is empty and its full text is the bracket and the object.
\<close>

theorem Error_format_witness:
  "snd (New sample_caller [Source ''f.go'' 10, Fields (Some (fmupd ''k'' (VString ''v'') fmempty))] [])
     = [builder\<lparr>fields' := Some (fmupd ''k'' (VString ''v'') fmempty), file' := ''f.go'', line := 10\<rparr>] \<and>
   Erroneous_Message sample_encoder []
     (builder\<lparr>fields' := Some (fmupd ''k'' (VString ''v'') fmempty), file' := ''f.go'', line := 10\<rparr>)
     = Some [] \<and>
   Erroneous_Error sample_encoder []
     (Some (builder\<lparr>fields' := Some (fmupd ''k'' (VString ''v'') fmempty), file' := ''f.go'', line := 10\<rparr>))
     = Some '' [f.go:10]  {\"k\":\"v\"}''"
proof -
  let ?kv = "fmupd ''k'' (VString ''v'') fmempty"
  let ?e = "builder\<lparr>fields' := Some ?kv, file' := ''f.go'', line := 10\<rparr>"
  have built: "snd (New sample_caller [Source ''f.go'' 10, Fields (Some ?kv)] []) = [?e]"
    by (simp add: New_def Source_def Fields_def capture_def builder_def)
  have message: "Erroneous_Message sample_encoder [] ?e = Some []"
    by (simp add: Erroneous_Message_def builder_def)
  have marshal: "json_Marshal sample_encoder ?kv = Some ''{\"k\":\"v\"}''"
    by (simp add: json_Marshal_single [where ks = "''\"k\"''" and vs = "''\"v\"''"]
          sample_encoder_def)
  have "Erroneous_Error sample_encoder [] (Some ?e) = Some '' [f.go:10]  {\"k\":\"v\"}''"
    using Error_format [where enc = sample_encoder and h = "[]" and e = ?e
        and d = "''{\"k\":\"v\"}''" and m = "[]"]
      message marshal
    by (simp add: builder_def itoa_10)
  with built message show ?thesis by simp
qed

section \<open>The units in the constructor\<close>

text \<open>
  C5.  \<^verbatim>\<open>New(Msg(m, f))\<close> with \<open>f\<close> not nil and holding under \<^verbatim>\<open>"error"\<close> an error that
  is not an own error builds a record with the message \<open>m\<close>, the fields \<open>f\<close> and that
  error as the cause, so that \<^verbatim>\<open>Message()\<close> is \<open>m\<close>, \<^verbatim>\<open>": "\<close> and the error's text when
  \<open>m\<close> is not empty.  The unit does what \<^verbatim>\<open>Err\<close> of that error does on the builder
  with the message and the fields set, and the call gives what the call with that \<^verbatim>\<open>Err\<close>
  unit after \<^verbatim>\<open>Msg\<close> gives.
\<close>

theorem Msg_promotes_error_field:
  assumes "fmlookup f ''error'' = Some (VError (Foreign t))"
  shows "New caller [Msg m (Some f)] h
           = (Own (Some (length h)),
              h @ [capture caller (builder\<lparr>msg := m, fields' := Some f, err := Some (Foreign t)\<rparr>)]) \<and>
         msg (capture caller (builder\<lparr>msg := m, fields' := Some f, err := Some (Foreign t)\<rparr>)) = m \<and>
         fields' (capture caller (builder\<lparr>msg := m, fields' := Some f, err := Some (Foreign t)\<rparr>))
           = Some f \<and>
         err (capture caller (builder\<lparr>msg := m, fields' := Some f, err := Some (Foreign t)\<rparr>))
           = Some (Foreign t) \<and>
         (m \<noteq> [] \<longrightarrow>
            Erroneous_Message enc hp
              (capture caller (builder\<lparr>msg := m, fields' := Some f, err := Some (Foreign t)\<rparr>))
              = Some (m @ '': '' @ t)) \<and>
         Msg m (Some f) e = Err (Some (Foreign t)) (e\<lparr>msg := m, fields' := Some f\<rparr>) \<and>
         New caller [Msg m (Some f)] h = New caller [Msg m (Some f), Err (Some (Foreign t))] h"
proof -
  let ?r = "capture caller (builder\<lparr>msg := m, fields' := Some f, err := Some (Foreign t)\<rparr>)"
  have unit: "Msg m (Some f) e = Err (Some (Foreign t)) (e\<lparr>msg := m, fields' := Some f\<rparr>)" for e
    using assms by (simp add: Msg_def)
  have keep: "msg ?r = m" "fields' ?r = Some f" "err ?r = Some (Foreign t)"
    by (simp_all add: capture_keeps)
  have new: "New caller [Msg m (Some f)] h = (Own (Some (length h)), h @ [?r])"
    by (simp add: New_def unit Err_foreign)
  have twice: "New caller [Msg m (Some f)] h = New caller [Msg m (Some f), Err (Some (Foreign t))] h"
    by (simp add: New_def unit Err_foreign)
  have message: "Erroneous_Message enc hp ?r = Some (m @ '': '' @ t)" if "m \<noteq> []"
    using that keep by (simp add: Erroneous_Message_def error_Error_Foreign)
  from unit keep new twice message show ?thesis by blast
qed

text \<open>\<^verbatim>\<open>New(Msg("failed", ErrFields{"error": errors.New("eof")}))\<close>, called from \<^verbatim>\<open>main.go:42\<close>.\<close>

theorem Msg_promotes_error_field_witness:
  "fmlookup sample_fields ''error'' = Some (VError (Foreign ''eof'')) \<and>
   New sample_caller [Msg ''failed'' (Some sample_fields)] []
     = (Own (Some 0),
        [\<lparr>msg = ''failed'', err = Some (Foreign ''eof''), fields' = Some sample_fields,
          file' = ''main.go'', line = 42, depth = 2\<rparr>]) \<and>
   Erroneous_Message sample_encoder []
     \<lparr>msg = ''failed'', err = Some (Foreign ''eof''), fields' = Some sample_fields,
      file' = ''main.go'', line = 42, depth = 2\<rparr> = Some ''failed: eof''"
proof -
  have h: "fmlookup sample_fields ''error'' = Some (VError (Foreign ''eof''))"
    by (simp add: sample_fields_def)
  have c: "capture sample_caller
             (builder\<lparr>msg := ''failed'', fields' := Some sample_fields, err := Some (Foreign ''eof'')\<rparr>)
           = \<lparr>msg = ''failed'', err = Some (Foreign ''eof''), fields' = Some sample_fields,
              file' = ''main.go'', line = 42, depth = 2\<rparr>"
    by (simp add: capture_def builder_def sample_caller_def)
  show ?thesis
    using h Msg_promotes_error_field
      [OF h, of sample_caller "''failed''" "[]" sample_encoder "[]" builder]
    by (simp add: c)
qed

text \<open>
  C6.  The builder starts with the depth 2: with no unit, the caller is resolved at depth 2.
  When no unit stops the loop and the loop leaves the builder \<open>e\<close>: if the file of \<open>e\<close>
  is empty, the caller is resolved at the depth of \<open>e\<close>; on success the resolved file
  and line are stored, on failure the record is \<open>e\<close> as the units left it, its file empty
  and its line unchanged, and it is returned all the same; if the file of \<open>e\<close> is not
  empty, the caller is not resolved and the record is \<open>e\<close>.
\<close>

theorem New_capture:
  assumes "apply_opts opts builder = (None, e)"
  shows "New caller [] h
           = (Own (Some (length h)),
              h @ [case caller 2 of
                     Some (f, l) \<Rightarrow> builder\<lparr>file' := f, line := l\<rparr>
                   | None \<Rightarrow> builder]) \<and>
         (\<forall>f l. file' e = [] \<and> caller (depth e) = Some (f, l) \<longrightarrow>
            New caller opts h = (Own (Some (length h)), h @ [e\<lparr>file' := f, line := l\<rparr>])) \<and>
         (file' e = [] \<and> caller (depth e) = None \<longrightarrow>
            New caller opts h = (Own (Some (length h)), h @ [e])) \<and>
         (file' e \<noteq> [] \<longrightarrow>
            New caller opts h = (Own (Some (length h)), h @ [e]))"
proof -
  have start: "New caller [] h
           = (Own (Some (length h)),
              h @ [case caller 2 of
                     Some (f, l) \<Rightarrow> builder\<lparr>file' := f, line := l\<rparr>
                   | None \<Rightarrow> builder])"
    by (simp add: New_def capture_def builder_def split: option.splits)
  from assms have new: "New caller opts h = (Own (Some (length h)), h @ [capture caller e])"
    by (rule New_no_stop)
  show ?thesis
    using start new by (simp add: capture_def)
qed

text \<open>
  Three calls on a stack that resolves at depth 2 only: one captures \<^verbatim>\<open>main.go:42\<close>, one
  asks for depth 9 and captures nothing, one has its source from a unit.
\<close>

theorem New_capture_witness:
  "apply_opts [Msg ''a'' None] builder = (None, builder\<lparr>msg := ''a''\<rparr>) \<and>
   New sample_caller [Msg ''a'' None] sample_heap
     = (Own (Some 2), sample_heap @ [builder\<lparr>msg := ''a'', file' := ''main.go'', line := 42\<rparr>]) \<and>
   apply_opts [Depth 9] builder = (None, builder\<lparr>depth := 9\<rparr>) \<and>
   New sample_caller [Depth 9] sample_heap
     = (Own (Some 2), sample_heap @ [builder\<lparr>depth := 9\<rparr>]) \<and>
   apply_opts [Source ''f.go'' 10] builder = (None, builder\<lparr>file' := ''f.go'', line := 10\<rparr>) \<and>
   New sample_caller [Source ''f.go'' 10] sample_heap
     = (Own (Some 2), sample_heap @ [builder\<lparr>file' := ''f.go'', line := 10\<rparr>])"
proof -
  have a: "apply_opts [Msg ''a'' None] builder = (None, builder\<lparr>msg := ''a''\<rparr>)"
    by (simp add: Msg_def)
  have b: "apply_opts [Depth 9] builder = (None, builder\<lparr>depth := 9\<rparr>)"
    by (simp add: Depth_def)
  have c: "apply_opts [Source ''f.go'' 10] builder = (None, builder\<lparr>file' := ''f.go'', line := 10\<rparr>)"
    by (simp add: Source_def)
  have len: "length sample_heap = 2"
    by (simp add: sample_heap_def)
  show ?thesis
    using a b c New_capture [OF a, of sample_caller sample_heap]
      New_capture [OF b, of sample_caller sample_heap]
      New_capture [OF c, of sample_caller sample_heap]
    by (simp add: len builder_def sample_caller_def)
qed

text \<open>
  After \<^verbatim>\<open>Source("", 5)\<close> a failed resolution leaves the line 5, not zero; and after
  \<^verbatim>\<open>Source("f.go", 10)\<close>, \<^verbatim>\<open>Source("", 0)\<close> the caller is resolved although a unit had
  set a file.
\<close>

theorem New_capture_counterexample:
  "New no_caller [Source [] 5] []
     = (Own (Some 0),
        [\<lparr>msg = [], err = None, fields' = None, file' = [], line = 5, depth = 2\<rparr>]) \<and>
   New sample_caller [Source ''f.go'' 10, Source [] 0] []
     = (Own (Some 0),
        [\<lparr>msg = [], err = None, fields' = None, file' = ''main.go'', line = 42, depth = 2\<rparr>])"
  by (simp add: New_def Source_def capture_def builder_def no_caller_def sample_caller_def)

text \<open>
  C7.  \<^verbatim>\<open>New(Msg(m, f1), Fields(f2))\<close>, with \<open>f1\<close> not nil and holding no own error under
  \<^verbatim>\<open>"error"\<close>, returns a new record, at the first free address, whose fields are \<open>f2\<close>
  and whose message is \<open>m\<close>.
\<close>

theorem Fields_after_Msg:
  assumes "\<forall>p. fmlookup f1 ''error'' \<noteq> Some (VError (Own p))"
  shows "fst (New caller [Msg m (Some f1), Fields f2] h) = Own (Some (length h)) \<and>
         length (snd (New caller [Msg m (Some f1), Fields f2] h)) = Suc (length h) \<and>
         Erroneous_Fields (snd (New caller [Msg m (Some f1), Fields f2] h) ! length h) = f2 \<and>
         msg (snd (New caller [Msg m (Some f1), Fields f2] h) ! length h) = m"
  by (simp add: New_def Msg_no_stop [OF assms] Fields_def capture_keeps Erroneous_Fields_def)

theorem Fields_after_Msg_witness:
  "(\<forall>p. fmlookup sample_fields ''error'' \<noteq> Some (VError (Own p))) \<and>
   fst (New sample_caller [Msg ''failed'' (Some sample_fields), Fields (Some fmempty)] sample_heap)
     = Own (Some 2) \<and>
   Erroneous_Fields
     (snd (New sample_caller [Msg ''failed'' (Some sample_fields), Fields (Some fmempty)] sample_heap) ! 2)
     = Some fmempty \<and>
   msg (snd (New sample_caller [Msg ''failed'' (Some sample_fields), Fields (Some fmempty)] sample_heap) ! 2)
     = ''failed''"
proof -
  have h: "\<forall>p. fmlookup sample_fields ''error'' \<noteq> Some (VError (Own p))"
    by (simp add: sample_fields_def)
  have len: "length sample_heap = 2"
    by (simp add: sample_heap_def)
  show ?thesis
    using h Fields_after_Msg [OF h, of sample_caller "''failed''" "Some fmempty" sample_heap]
    by (simp add: len)
qed

text \<open>
  C8.  After \<^verbatim>\<open>New\<close> on standard units the heap is the old heap and one record, the
  builder, and the cause of that record is not an own error; so when no record of the old
  heap has an own error as its cause, none of the new heap has.  \<^verbatim>\<open>Err\<close> of an own error,
  and \<^verbatim>\<open>Msg\<close> with an own error under \<^verbatim>\<open>"error"\<close>, return that error and store no cause.
\<close>

theorem cause_never_own:
  assumes "list_all standard_unit opts"
  shows "snd (New caller opts h) = h @ [last (snd (New caller opts h))] \<and>
         \<not> is_Erroneous (err (last (snd (New caller opts h)))) \<and>
         (\<forall>p. err (last (snd (New caller opts h))) \<noteq> Some (Own p)) \<and>
         (list_all (\<lambda>r. \<not> is_Erroneous (err r)) h \<longrightarrow>
            list_all (\<lambda>r. \<not> is_Erroneous (err r)) (snd (New caller opts h))) \<and>
         New caller [Err (Some (Own q))] h = (Own q, h @ [builder]) \<and>
         (fmlookup f ''error'' = Some (VError (Own q)) \<longrightarrow>
            New caller [Msg m (Some f)] h = (Own q, h @ [builder\<lparr>msg := m, fields' := Some f\<rparr>]))"
proof -
  let ?r = "last (snd (New caller opts h))"
  have heap: "snd (New caller opts h) = h @ [?r]"
    by (rule New_heap)
  have "\<not> is_Erroneous (err builder)"
    by (simp add: builder_def)
  with assms have fresh: "\<not> is_Erroneous (err ?r)"
    by (simp add: New_last_cause apply_opts_keeps_cause)
  then have fresh': "\<forall>p. err ?r \<noteq> Some (Own p)"
    by auto
  have inv: "list_all (\<lambda>r. \<not> is_Erroneous (err r)) (snd (New caller opts h))"
    if "list_all (\<lambda>r. \<not> is_Erroneous (err r)) h"
    using that fresh by (subst heap) simp
  have by_Err: "New caller [Err (Some (Own q))] h = (Own q, h @ [builder])"
    by (simp add: New_def Err_def)
  have by_Msg: "New caller [Msg m (Some f)] h = (Own q, h @ [builder\<lparr>msg := m, fields' := Some f\<rparr>])"
    if "fmlookup f ''error'' = Some (VError (Own q))"
    using that by (simp add: New_def Msg_def Err_def)
  from heap fresh fresh' inv by_Err by_Msg show ?thesis
    by blast
qed

text \<open>
  The five units in one call, over a heap with no own cause; and a \<^verbatim>\<open>Msg\<close> whose fields
  hold the record at address 1 under \<^verbatim>\<open>"error"\<close>.
\<close>

theorem cause_never_own_witness:
  "list_all standard_unit
     [Msg ''failed'' (Some sample_fields), Fields None, Err (Some (Foreign ''io'')),
      Source ''f.go'' 10, Depth 3] \<and>
   \<not> is_Erroneous (err (last (snd (New sample_caller
     [Msg ''failed'' (Some sample_fields), Fields None, Err (Some (Foreign ''io'')),
      Source ''f.go'' 10, Depth 3] sample_heap)))) \<and>
   list_all (\<lambda>r. \<not> is_Erroneous (err r)) sample_heap \<and>
   list_all (\<lambda>r. \<not> is_Erroneous (err r)) (snd (New sample_caller
     [Msg ''failed'' (Some sample_fields), Fields None, Err (Some (Foreign ''io'')),
      Source ''f.go'' 10, Depth 3] sample_heap)) \<and>
   fmlookup (fmupd ''error'' (VError (Own (Some 1))) fmempty) ''error'' = Some (VError (Own (Some 1))) \<and>
   New sample_caller [Msg ''again'' (Some (fmupd ''error'' (VError (Own (Some 1))) fmempty))] sample_heap
     = (Own (Some 1),
        sample_heap @ [builder\<lparr>msg := ''again'',
                                fields' := Some (fmupd ''error'' (VError (Own (Some 1))) fmempty)\<rparr>])"
proof -
  let ?opts = "[Msg ''failed'' (Some sample_fields), Fields None, Err (Some (Foreign ''io'')),
      Source ''f.go'' 10, Depth 3]"
  have std: "list_all standard_unit ?opts"
    by (simp add: standard_unit.intros)
  have old: "list_all (\<lambda>r. \<not> is_Erroneous (err r)) sample_heap"
    by (simp add: sample_heap_def builder_def)
  have look: "fmlookup (fmupd ''error'' (VError (Own (Some 1))) fmempty) ''error''
                = Some (VError (Own (Some 1)))"
    by simp
  show ?thesis
    using std old look
      cause_never_own [OF std, of sample_caller sample_heap "Some 1"
        "fmupd ''error'' (VError (Own (Some 1))) fmempty" "''again''"]
    by blast
qed

section \<open>The nil receiver\<close>

text \<open>
  C9.  \<^verbatim>\<open>Error()\<close> on the nil pointer returns \<^verbatim>\<open>"unknown error"\<close>, called on the pointer
  or through the interface; it does return.
\<close>

theorem Error_nil_receiver:
  "Erroneous_Error enc h None = Some ''unknown error'' \<and>
   error_Error enc h (Own None) = Some ''unknown error''"
  by (simp add: Erroneous_Error_def error_Error_Own)

text \<open>
  C10.  The assertion \<^verbatim>\<open>err.(*Erroneous)\<close> holds of the nil pointer of that type, so
  \<^verbatim>\<open>New(Err(thatValue), ...)\<close> returns that value, an error that is not the nil interface
  and whose \<^verbatim>\<open>Error()\<close> is \<^verbatim>\<open>"unknown error"\<close>.
\<close>

theorem New_Err_typed_nil:
  "is_Erroneous (Some (Own None)) \<and>
   fst (New caller (Err (Some (Own None)) # post) h) = Own None \<and>
   error_Error enc (snd (New caller (Err (Some (Own None)) # post) h))
     (fst (New caller (Err (Some (Own None)) # post) h)) = Some ''unknown error''"
  by (simp add: New_def Err_def error_Error_Own)

end
